theory Spec2Isabelle
  imports Main "HOL-Library.Log_Nat" "HOL-Library.Char_ord" "HOL-Library.List_Lexorder"
begin

section \<open>Go's float64 and its text forms\<close>

text \<open>
  The trading engine computes every price and volume in \<^verbatim>\<open>float64\<close>, reads numbers
  with \<^verbatim>\<open>strconv.ParseFloat\<close> and writes them with \<^verbatim>\<open>fmt.Sprintf("%.8f", x)\<close>.
  A finite binary64 value is a rational number, so \<open>float64\<close> is \<open>rat\<close>, and every
  arithmetic operation is the exact operation followed by \<open>fl64\<close>, the rounding to the
  nearest value with a 53-bit significand, ties to even, with gradual underflow below
  \<open>2 ^ -1022\<close>. Each operation rounds on its own (no fused multiply-add).

  Outside the model: infinities, NaN, the sign of zero and overflow of an arithmetic
  result (a magnitude of \<open>2 ^ 1024\<close> or more stays a rational here). ParseFloat is
  modelled on decimal literals (sign, digits, fraction, exponent); the words
  \<^verbatim>\<open>Inf\<close> and \<^verbatim>\<open>NaN\<close>, hexadecimal literals and digit separators are syntax
  errors here.
\<close>

type_synonym float64 = rat

definition round_half_even :: "rat \<Rightarrow> int" where
  "round_half_even x =
     (let n = \<lfloor>x\<rfloor>; d = x - of_int n
      in if d < 1 / 2 then n else if 1 / 2 < d then n + 1 else if even n then n else n + 1)"

definition pow2 :: "int \<Rightarrow> rat" where
  "pow2 e = (if 0 \<le> e then 2 ^ nat e else 1 / 2 ^ nat (- e))"

definition pow10 :: "int \<Rightarrow> rat" where
  "pow10 e = (if 0 \<le> e then 10 ^ nat e else 1 / 10 ^ nat (- e))"

text \<open>\<open>ilog2 x\<close> is the binary exponent of a positive \<open>x\<close>: \<open>2 ^ ilog2 x \<le> x < 2 ^ (ilog2 x + 1)\<close>.\<close>

definition ilog2 :: "rat \<Rightarrow> int" where
  "ilog2 x = (if 1 \<le> x then bitlen \<lfloor>x\<rfloor> - 1 else - bitlen (\<lceil>1 / x\<rceil> - 1))"

definition fl64 :: "rat \<Rightarrow> float64" where
  "fl64 x =
     (if x = 0 then 0
      else let e = max (ilog2 \<bar>x\<bar> - 52) (- 1074)
           in sgn x * of_int (round_half_even (\<bar>x\<bar> / pow2 e)) * pow2 e)"

definition fadd :: "float64 \<Rightarrow> float64 \<Rightarrow> float64" where
  "fadd a b = fl64 (a + b)"

definition fsub :: "float64 \<Rightarrow> float64 \<Rightarrow> float64" where
  "fsub a b = fl64 (a - b)"

definition fmul :: "float64 \<Rightarrow> float64 \<Rightarrow> float64" where
  "fmul a b = fl64 (a * b)"

definition fdiv :: "float64 \<Rightarrow> float64 \<Rightarrow> float64" where
  "fdiv a b = fl64 (a / b)"

text \<open>The conversion \<^verbatim>\<open>float64(i)\<close> of an int.\<close>

definition float64_of_int :: "int \<Rightarrow> float64" where
  "float64_of_int i = fl64 (of_int i)"

subsection \<open>Errors\<close>

text \<open>
  A Go \<^verbatim>\<open>error\<close> is a value: \<open>Errorf\<close> is \<^verbatim>\<open>fmt.Errorf\<close> with a plain message,
  \<open>Wrap\<close> is \<^verbatim>\<open>fmt.Errorf("...: %w", err)\<close>, \<open>ErrSyntax\<close> and \<open>ErrRange\<close> are
  the two failures of ParseFloat on the given text, \<open>ExchangeError\<close> is whatever the
  exchange client reports (transport failure, a status other than 200, an undecodable
  body, an empty order list), and \<open>Panic\<close> is a run-time panic.
\<close>

datatype error =
    Errorf string
  | Wrap string error
  | ErrSyntax string
  | ErrRange string
  | ExchangeError string
  | Panic string

subsection \<open>strconv.ParseFloat\<close>

definition is_digit :: "char \<Rightarrow> bool" where
  "is_digit c = (c \<in> set ''0123456789'')"

definition digit_val :: "char \<Rightarrow> int" where
  "digit_val c = of_char c - 48"

definition digits_val :: "string \<Rightarrow> int" where
  "digits_val cs = foldl (\<lambda>a c. 10 * a + digit_val c) 0 cs"

definition parse_exponent :: "string \<Rightarrow> int option" where
  "parse_exponent s =
     (case s of
        [] \<Rightarrow> Some 0
      | c # t \<Rightarrow>
          if c = CHR ''e'' \<or> c = CHR ''E'' then
            (let (neg, ds) =
               (case t of
                  [] \<Rightarrow> (False, t)
                | d # u \<Rightarrow>
                    if d = CHR ''-'' then (True, u)
                    else if d = CHR ''+'' then (False, u) else (False, t))
             in if ds \<noteq> [] \<and> list_all is_digit ds
                then Some (if neg then - digits_val ds else digits_val ds)
                else None)
          else None)"

text \<open>The exact value of a decimal literal, \<open>None\<close> when the text is not one.\<close>

definition parse_decimal :: "string \<Rightarrow> rat option" where
  "parse_decimal s =
     (let (neg, r) =
        (case s of
           [] \<Rightarrow> (False, s)
         | c # t \<Rightarrow>
             if c = CHR ''-'' then (True, t)
             else if c = CHR ''+'' then (False, t) else (False, s));
          ip = takeWhile is_digit r;
          r1 = dropWhile is_digit r;
          (fp, r2) =
            (case r1 of
               [] \<Rightarrow> ([], r1)
             | c # t \<Rightarrow>
                 if c = CHR ''.'' then (takeWhile is_digit t, dropWhile is_digit t)
                 else ([], r1))
      in if ip = [] \<and> fp = [] then None
         else (case parse_exponent r2 of
                 None \<Rightarrow> None
               | Some e \<Rightarrow>
                   Some ((if neg then - 1 else 1) * of_int (digits_val (ip @ fp))
                         * pow10 (e - int (length fp)))))"

text \<open>
  ParseFloat returns the nearest binary64 value; a text whose value rounds to
  \<open>2 ^ 1024\<close> or beyond is a range error.
\<close>

definition ParseFloat :: "string \<Rightarrow> error + float64" where
  "ParseFloat s =
     (case parse_decimal s of
        None \<Rightarrow> Inl (ErrSyntax s)
      | Some v \<Rightarrow> if 2 ^ 1024 \<le> \<bar>fl64 v\<bar> then Inl (ErrRange s) else Inr (fl64 v))"

text \<open>
  The value ParseFloat returns when the caller drops the error
  (\<^verbatim>\<open>v, _ := strconv.ParseFloat(s, 64)\<close>): 0 on a syntax error. On a range error Go
  returns an infinity, which the model does not have; the rounded value stands for it.
\<close>

definition ParseFloat_value :: "string \<Rightarrow> float64" where
  "ParseFloat_value s = (case parse_decimal s of None \<Rightarrow> 0 | Some v \<Rightarrow> fl64 v)"

subsection \<open>fmt.Sprintf("%.8f", x)\<close>

definition digit_char :: "int \<Rightarrow> char" where
  "digit_char d = ''0123456789'' ! nat d"

function digits :: "int \<Rightarrow> string" where
  "digits n = (if n < 10 then [digit_char n] else digits (n div 10) @ [digit_char (n mod 10)])"
  by pat_completeness auto
termination
  by (relation "measure nat") auto

declare digits.simps [simp del]

definition pad8 :: "int \<Rightarrow> string" where
  "pad8 m = map (\<lambda>i. digit_char (m div 10 ^ i mod 10)) [7, 6, 5, 4, 3, 2, 1, 0]"

text \<open>
  \<open>round8 x\<close> is the number of units of \<open>10 ^ -8\<close> in \<open>\<bar>x\<bar>\<close>, rounded half to even on the
  exact value, as Go's formatter does.
\<close>

definition round8 :: "float64 \<Rightarrow> int" where
  "round8 x = round_half_even (\<bar>x\<bar> * 10 ^ 8)"

definition Sprintf8 :: "float64 \<Rightarrow> string" where
  "Sprintf8 x =
     (if x < 0 then ''-'' else []) @ digits (round8 x div 10 ^ 8) @ ''.''
       @ pad8 (round8 x mod 10 ^ 8)"

section \<open>The exchange client (package bybit)\<close>

record ExchangeOrderRequest =
  Symbol :: string
  Side :: string
  OrderType :: string
  Qty :: string
  Price :: string
  TimeInForce :: string
  Timestamp :: int

record ExchangeOrderResponse =
  Symbol :: string
  OrderID :: string
  OrderLinkID :: string
  Price :: string
  Qty :: string
  ExecutedQty :: string
  Status :: string
  TimeInForce :: string
  OrderType :: string
  Side :: string
  CreatedTime :: string

record ExchangeCancelRequest =
  Symbol :: string
  OrderID :: string
  Timestamp :: int

text \<open>
  The three methods of the client (the interface MockClient implements) are calls to the
  outside world. A call is recorded in \<open>calls\<close>, and its answer is the next element of
  \<open>replies\<close>: any sequence of answers is a possible exchange, and with no answer left
  the call fails like a transport error. \<open>clock\<close> is \<^verbatim>\<open>time.Now()\<close> in milliseconds and
  \<open>next_uuid\<close> the source of \<^verbatim>\<open>uuid.New()\<close> (identifiers are numbered as they are drawn).
\<close>

datatype exch_call =
    CallExecuteOrder ExchangeOrderRequest
  | CallTerminateOrder ExchangeCancelRequest
  | CallFetchOrderInfo string string

datatype exch_reply = Failure error | Success ExchangeOrderResponse

record world =
  replies :: "exch_reply list"
  calls :: "exch_call list"
  clock :: int
  next_uuid :: int

definition exchange :: "exch_call \<Rightarrow> world \<Rightarrow> exch_reply \<times> world" where
  "exchange c w =
     (case replies w of
        [] \<Rightarrow> (Failure (ExchangeError ''transport''), w\<lparr>calls := calls w @ [c]\<rparr>)
      | r # rs \<Rightarrow> (r, w\<lparr>replies := rs, calls := calls w @ [c]\<rparr>))"

definition uuid_New :: "world \<Rightarrow> int \<times> world" where
  "uuid_New w = (next_uuid w, w\<lparr>next_uuid := next_uuid w + 1\<rparr>)"

definition Client_ExecuteOrder ::
  "ExchangeOrderRequest \<Rightarrow> world \<Rightarrow> (error + ExchangeOrderResponse) \<times> world" where
  "Client_ExecuteOrder req w =
     (case exchange (CallExecuteOrder (req\<lparr>ExchangeOrderRequest.Timestamp := clock w\<rparr>)) w of
        (Failure e, w') \<Rightarrow> (Inl e, w')
      | (Success resp, w') \<Rightarrow> (Inr resp, w'))"

definition Client_TerminateOrder :: "ExchangeCancelRequest \<Rightarrow> world \<Rightarrow> error option \<times> world" where
  "Client_TerminateOrder req w =
     (case exchange (CallTerminateOrder (req\<lparr>ExchangeCancelRequest.Timestamp := clock w\<rparr>)) w of
        (Failure e, w') \<Rightarrow> (Some e, w')
      | (Success resp, w') \<Rightarrow> (None, w'))"

definition Client_FetchOrderInfo ::
  "string \<Rightarrow> string \<Rightarrow> world \<Rightarrow> (error + ExchangeOrderResponse) \<times> world" where
  "Client_FetchOrderInfo symbol orderID w =
     (case exchange (CallFetchOrderInfo symbol orderID) w of
        (Failure e, w') \<Rightarrow> (Inl e, w')
      | (Success resp, w') \<Rightarrow> (Inr resp, w'))"

section \<open>The domain (package domain)\<close>

abbreviation OrderTypeMarket :: string where "OrderTypeMarket \<equiv> ''MARKET''"
abbreviation OrderTypeLimit :: string where "OrderTypeLimit \<equiv> ''LIMIT''"
abbreviation OrderSideBuy :: string where "OrderSideBuy \<equiv> ''BUY''"
abbreviation OrderSideSell :: string where "OrderSideSell \<equiv> ''SELL''"
abbreviation OrderStatusNew :: string where "OrderStatusNew \<equiv> ''NEW''"
abbreviation OrderStatusFilled :: string where "OrderStatusFilled \<equiv> ''FILLED''"
abbreviation TradeStatusActive :: string where "TradeStatusActive \<equiv> ''ACTIVE''"
abbreviation TradeStatusCompleted :: string where "TradeStatusCompleted \<equiv> ''COMPLETED''"
abbreviation TradeStatusCancelled :: string where "TradeStatusCancelled \<equiv> ''CANCELLED''"
abbreviation TradeStatusFailed :: string where "TradeStatusFailed \<equiv> ''FAILED''"
abbreviation DefaultTimeInForce :: string where "DefaultTimeInForce \<equiv> ''GTC''"

record Order =
  ID :: int
  BybitID :: string
  Symbol :: string
  Side :: string
  Type :: string
  Quantity :: string
  Price :: string
  Status :: string
  ExecutedQty :: string
  CreatedAt :: int
  UpdatedAt :: int

record CreateOrderRequest =
  Symbol :: string
  Side :: string
  Type :: string
  Quantity :: string
  Price :: string

record TradeConfig =
  Symbol :: string
  EntryVolume :: string
  DCAStepPercent :: float64
  DCAVolume :: string
  DCACount :: int
  TakeProfitPercent :: float64
  Martingale :: float64
  DynamicStep :: bool

record Trade =
  ID :: int
  Symbol :: string
  Config :: TradeConfig
  EntryOrder :: "Order option"
  DCAOrders :: "Order list"
  TakeProfitOrder :: "Order option"
  Status :: string
  TotalInvested :: string
  AveragePrice :: string
  CurrentPrice :: string
  CreatedAt :: int
  UpdatedAt :: int

section \<open>OrderService\<close>

definition buildOrderFromResponse :: "ExchangeOrderResponse \<Rightarrow> world \<Rightarrow> Order \<times> world" where
  "buildOrderFromResponse resp w =
     (case uuid_New w of
        (uid, w') \<Rightarrow>
          (\<lparr>Order.ID = uid,
            Order.BybitID = ExchangeOrderResponse.OrderID resp,
            Order.Symbol = ExchangeOrderResponse.Symbol resp,
            Order.Side = ExchangeOrderResponse.Side resp,
            Order.Type = ExchangeOrderResponse.OrderType resp,
            Order.Quantity = ExchangeOrderResponse.Qty resp,
            Order.Price = ExchangeOrderResponse.Price resp,
            Order.Status = ExchangeOrderResponse.Status resp,
            Order.ExecutedQty = ExchangeOrderResponse.ExecutedQty resp,
            Order.CreatedAt = clock w',
            Order.UpdatedAt = clock w'\<rparr>, w'))"

definition calculateQuantityFromUSDT :: "string \<Rightarrow> string \<Rightarrow> error + string" where
  "calculateQuantityFromUSDT usdtAmount price =
     (case ParseFloat usdtAmount of
        Inl e \<Rightarrow> Inl (Wrap ''invalid USDT amount'' e)
      | Inr usdt \<Rightarrow>
          (case ParseFloat price of
             Inl e \<Rightarrow> Inl (Wrap ''invalid price'' e)
           | Inr priceFloat \<Rightarrow>
               if priceFloat \<le> 0 then Inl (Errorf ''price must be positive'')
               else Inr (Sprintf8 (fdiv usdt priceFloat))))"

definition ExecuteMarketOrder :: "CreateOrderRequest \<Rightarrow> world \<Rightarrow> (error + Order) \<times> world" where
  "ExecuteMarketOrder req w =
     (case Client_ExecuteOrder
             \<lparr>ExchangeOrderRequest.Symbol = CreateOrderRequest.Symbol req,
              ExchangeOrderRequest.Side = CreateOrderRequest.Side req,
              ExchangeOrderRequest.OrderType = CreateOrderRequest.Type req,
              ExchangeOrderRequest.Qty = CreateOrderRequest.Quantity req,
              ExchangeOrderRequest.Price = [],
              ExchangeOrderRequest.TimeInForce = [],
              ExchangeOrderRequest.Timestamp = clock w\<rparr> w of
        (Inl e, w') \<Rightarrow> (Inl (Wrap ''failed to execute market order'' e), w')
      | (Inr resp, w') \<Rightarrow>
          (case buildOrderFromResponse resp w' of (order, w'') \<Rightarrow> (Inr order, w'')))"

definition ExecuteLimitOrder :: "CreateOrderRequest \<Rightarrow> world \<Rightarrow> (error + Order) \<times> world" where
  "ExecuteLimitOrder req w =
     (if CreateOrderRequest.Price req = [] then
        (Inl (Errorf ''price is required for limit order''), w)
      else
        (case calculateQuantityFromUSDT (CreateOrderRequest.Quantity req)
                (CreateOrderRequest.Price req) of
           Inl e \<Rightarrow> (Inl (Wrap ''failed to calculate quantity'' e), w)
         | Inr quantity \<Rightarrow>
             (case Client_ExecuteOrder
                     \<lparr>ExchangeOrderRequest.Symbol = CreateOrderRequest.Symbol req,
                      ExchangeOrderRequest.Side = CreateOrderRequest.Side req,
                      ExchangeOrderRequest.OrderType = CreateOrderRequest.Type req,
                      ExchangeOrderRequest.Qty = quantity,
                      ExchangeOrderRequest.Price = CreateOrderRequest.Price req,
                      ExchangeOrderRequest.TimeInForce = DefaultTimeInForce,
                      ExchangeOrderRequest.Timestamp = clock w\<rparr> w of
                (Inl e, w') \<Rightarrow> (Inl (Wrap ''failed to execute limit order'' e), w')
              | (Inr resp, w') \<Rightarrow>
                  (case buildOrderFromResponse resp w' of (order, w'') \<Rightarrow> (Inr order, w'')))))"

definition TerminateOrder :: "string \<Rightarrow> string \<Rightarrow> world \<Rightarrow> error option \<times> world" where
  "TerminateOrder symbol orderID w =
     (case Client_TerminateOrder
             \<lparr>ExchangeCancelRequest.Symbol = symbol,
              ExchangeCancelRequest.OrderID = orderID,
              ExchangeCancelRequest.Timestamp = clock w\<rparr> w of
        (Some e, w') \<Rightarrow> (Some (Wrap ''failed to terminate order'' e), w')
      | (None, w') \<Rightarrow> (None, w'))"

definition FetchOrderStatus :: "string \<Rightarrow> string \<Rightarrow> world \<Rightarrow> (error + Order) \<times> world" where
  "FetchOrderStatus symbol orderID w =
     (case Client_FetchOrderInfo symbol orderID w of
        (Inl e, w') \<Rightarrow> (Inl (Wrap ''failed to fetch order status'' e), w')
      | (Inr resp, w') \<Rightarrow>
          (case buildOrderFromResponse resp w' of (order, w'') \<Rightarrow> (Inr order, w'')))"

definition ComputeTakeProfitPrice :: "string \<Rightarrow> float64 \<Rightarrow> string \<Rightarrow> error + string" where
  "ComputeTakeProfitPrice entryPrice profitPercent side =
     (if entryPrice = [] then Inl (Errorf ''entry price is required'')
      else if profitPercent \<le> 0 then Inl (Errorf ''profit percent must be positive'')
      else
        (case ParseFloat entryPrice of
           Inl e \<Rightarrow> Inl (Wrap ''invalid entry price'' e)
         | Inr price \<Rightarrow>
             Inr (Sprintf8
                   (if side = OrderSideBuy then fmul price (fadd 1 (fdiv profitPercent 100))
                    else fmul price (fsub 1 (fdiv profitPercent 100))))))"

definition ComputeDCAPrice :: "string \<Rightarrow> float64 \<Rightarrow> string \<Rightarrow> error + string" where
  "ComputeDCAPrice currentPrice stepPercent side =
     (if currentPrice = [] then Inl (Errorf ''current price is required'')
      else if stepPercent \<le> 0 then Inl (Errorf ''step percent must be positive'')
      else
        (case ParseFloat currentPrice of
           Inl e \<Rightarrow> Inl (Wrap ''invalid current price'' e)
         | Inr price \<Rightarrow>
             Inr (Sprintf8
                   (if side = OrderSideBuy then fmul price (fsub 1 (fdiv stepPercent 100))
                    else fmul price (fadd 1 (fdiv stepPercent 100))))))"

section \<open>TradeService\<close>

text \<open>
  The service owns two maps: the registry \<open>trades\<close> and the reverse index
  \<open>orderIndex\<close> from an order's exchange id to the id of its trade. A
  \<^verbatim>\<open>*domain.Trade\<close> is held by the registry under its own id, so a write through the
  pointer is a write to the registry at that id. Operations run one after the other
  (the mutex and concurrent requests are not part of the model).
\<close>

record TradeService =
  trades :: "int \<rightharpoonup> Trade"
  orderIndex :: "string \<rightharpoonup> int"

definition NewTradeManager :: TradeService where
  "NewTradeManager = \<lparr>trades = Map.empty, orderIndex = Map.empty\<rparr>"

subsection \<open>Initialization\<close>

function tp_volume_loop :: "int \<Rightarrow> string \<Rightarrow> Trade \<Rightarrow> string" where
  "tp_volume_loop i totalVolume trade =
     (if i < DCACount (Config trade) then
        (let dcaVolume = ParseFloat_value (DCAVolume (Config trade));
             totalVolumeFloat = ParseFloat_value totalVolume
         in tp_volume_loop (i + 1)
              (Sprintf8 (fadd totalVolumeFloat (fmul dcaVolume (Martingale (Config trade)))))
              trade)
      else totalVolume)"
  by pat_completeness auto
termination
  by (relation "measure (\<lambda>(i, totalVolume, trade). nat (DCACount (Config trade) - i))") auto

declare tp_volume_loop.simps [simp del]

definition setupTakeProfitOrder :: "Trade \<Rightarrow> world \<Rightarrow> error option \<times> Trade \<times> world" where
  "setupTakeProfitOrder trade w =
     (case EntryOrder trade of
        None \<Rightarrow> (Some (Panic ''nil pointer dereference''), trade, w)
      | Some entry \<Rightarrow>
          (case ParseFloat (Order.Price entry) of
             Inl e \<Rightarrow> (Some (Wrap ''invalid entry price'' e), trade, w)
           | Inr entryPrice \<Rightarrow>
               (let tpPrice = fmul entryPrice (fadd 1 (fdiv (TakeProfitPercent (Config trade)) 100));
                    tpPriceStr = Sprintf8 tpPrice;
                    totalVolume =
                      (if 0 < Martingale (Config trade)
                       then tp_volume_loop 0 (EntryVolume (Config trade)) trade
                       else EntryVolume (Config trade))
                in case ExecuteLimitOrder
                          \<lparr>CreateOrderRequest.Symbol = TradeConfig.Symbol (Config trade),
                           CreateOrderRequest.Side = OrderSideSell,
                           CreateOrderRequest.Type = OrderTypeLimit,
                           CreateOrderRequest.Quantity = totalVolume,
                           CreateOrderRequest.Price = tpPriceStr\<rparr> w of
                     (Inl e, w') \<Rightarrow> (Some (Wrap ''failed to create take profit order'' e), trade, w')
                   | (Inr tpOrder, w') \<Rightarrow> (None, trade\<lparr>TakeProfitOrder := Some tpOrder\<rparr>, w'))))"

function dca_loop :: "int \<Rightarrow> float64 \<Rightarrow> string \<Rightarrow> Trade \<Rightarrow> world \<Rightarrow> Trade \<times> world" where
  "dca_loop i currentPrice currentVolume trade w =
     (if i < DCACount (Config trade) then
        (let currentPrice' =
               (if DynamicStep (Config trade) then
                  (let stepPercent = fmul (DCAStepPercent (Config trade)) (float64_of_int (i + 1))
                   in fmul currentPrice (fsub 1 (fdiv stepPercent 100)))
                else fmul currentPrice (fsub 1 (fdiv (DCAStepPercent (Config trade)) 100)));
             dcaPriceStr = Sprintf8 currentPrice';
             currentVolume' =
               (if 0 < Martingale (Config trade)
                then Sprintf8 (fmul (ParseFloat_value currentVolume) (Martingale (Config trade)))
                else currentVolume)
         in case ExecuteLimitOrder
                   \<lparr>CreateOrderRequest.Symbol = TradeConfig.Symbol (Config trade),
                    CreateOrderRequest.Side = OrderSideBuy,
                    CreateOrderRequest.Type = OrderTypeLimit,
                    CreateOrderRequest.Quantity = currentVolume',
                    CreateOrderRequest.Price = dcaPriceStr\<rparr> w of
              (Inl e, w') \<Rightarrow> dca_loop (i + 1) currentPrice' currentVolume' trade w'
            | (Inr dcaOrder, w') \<Rightarrow>
                dca_loop (i + 1) currentPrice' currentVolume'
                  (trade\<lparr>DCAOrders := DCAOrders trade @ [dcaOrder]\<rparr>) w')
      else (trade, w))"
  by pat_completeness auto
termination
  by (relation "measure (\<lambda>(i, p, v, trade, w). nat (DCACount (Config trade) - i))") auto

declare dca_loop.simps [simp del]

definition setupDCAOrders :: "Trade \<Rightarrow> world \<Rightarrow> error option \<times> Trade \<times> world" where
  "setupDCAOrders trade w =
     (case EntryOrder trade of
        None \<Rightarrow> (Some (Panic ''nil pointer dereference''), trade, w)
      | Some entry \<Rightarrow>
          (case ParseFloat (Order.Price entry) of
             Inl e \<Rightarrow> (Some (Wrap ''invalid entry price'' e), trade, w)
           | Inr entryPrice \<Rightarrow>
               (case dca_loop 0 entryPrice (DCAVolume (Config trade)) trade w of
                  (trade', w') \<Rightarrow> (None, trade', w'))))"

definition indexOrders :: "Trade \<Rightarrow> TradeService \<Rightarrow> TradeService" where
  "indexOrders trade s =
     (let s1 = (case EntryOrder trade of
                  None \<Rightarrow> s
                | Some e \<Rightarrow> s\<lparr>orderIndex := (orderIndex s)(Order.BybitID e \<mapsto> Trade.ID trade)\<rparr>);
          s2 = (case TakeProfitOrder trade of
                  None \<Rightarrow> s1
                | Some tp \<Rightarrow> s1\<lparr>orderIndex := (orderIndex s1)(Order.BybitID tp \<mapsto> Trade.ID trade)\<rparr>)
      in fold (\<lambda>dcaOrder s'. s'\<lparr>orderIndex := (orderIndex s')(Order.BybitID dcaOrder \<mapsto> Trade.ID trade)\<rparr>)
           (DCAOrders trade) s2)"

definition unindexOrders :: "Trade \<Rightarrow> TradeService \<Rightarrow> TradeService" where
  "unindexOrders trade s =
     (let s1 = (case EntryOrder trade of
                  None \<Rightarrow> s
                | Some e \<Rightarrow> s\<lparr>orderIndex := (orderIndex s)(Order.BybitID e := None)\<rparr>);
          s2 = (case TakeProfitOrder trade of
                  None \<Rightarrow> s1
                | Some tp \<Rightarrow> s1\<lparr>orderIndex := (orderIndex s1)(Order.BybitID tp := None)\<rparr>)
      in fold (\<lambda>dcaOrder s'. s'\<lparr>orderIndex := (orderIndex s')(Order.BybitID dcaOrder := None)\<rparr>)
           (DCAOrders trade) s2)"

definition InitializeTrade ::
  "TradeConfig \<Rightarrow> TradeService \<Rightarrow> world \<Rightarrow> (error + Trade) \<times> TradeService \<times> world" where
  "InitializeTrade config s w =
     (case ExecuteMarketOrder
             \<lparr>CreateOrderRequest.Symbol = TradeConfig.Symbol config,
              CreateOrderRequest.Side = OrderSideBuy,
              CreateOrderRequest.Type = OrderTypeMarket,
              CreateOrderRequest.Quantity = EntryVolume config,
              CreateOrderRequest.Price = []\<rparr> w of
        (Inl e, w1) \<Rightarrow> (Inl (Wrap ''failed to execute entry order'' e), s, w1)
      | (Inr entryOrder, w1) \<Rightarrow>
          (case uuid_New w1 of
             (tid, w2) \<Rightarrow>
               (let trade =
                      \<lparr>Trade.ID = tid,
                       Trade.Symbol = TradeConfig.Symbol config,
                       Trade.Config = config,
                       Trade.EntryOrder = Some entryOrder,
                       Trade.DCAOrders = [],
                       Trade.TakeProfitOrder = None,
                       Trade.Status = TradeStatusActive,
                       Trade.TotalInvested = EntryVolume config,
                       Trade.AveragePrice = Order.Price entryOrder,
                       Trade.CurrentPrice = Order.Price entryOrder,
                       Trade.CreatedAt = clock w2,
                       Trade.UpdatedAt = clock w2\<rparr>
                in case setupTakeProfitOrder trade w2 of
                     (err1, trade1, w3) \<Rightarrow>
                       (case setupDCAOrders trade1 w3 of
                          (err2, trade2, w4) \<Rightarrow>
                            (Inr trade2,
                             indexOrders trade2 (s\<lparr>trades := (trades s)(Trade.ID trade2 \<mapsto> trade2)\<rparr>),
                             w4)))))"

definition FindTradeByOrderID :: "string \<Rightarrow> TradeService \<Rightarrow> error + Trade" where
  "FindTradeByOrderID orderID s =
     (case orderIndex s orderID of
        None \<Rightarrow> Inl (Errorf ''trade not found for order ID'')
      | Some tradeID \<Rightarrow>
          (case trades s tradeID of
             None \<Rightarrow> Inl (Errorf ''trade not found'')
           | Some trade \<Rightarrow> Inr trade))"

subsection \<open>Fills\<close>

fun avg_loop :: "Order list \<Rightarrow> float64 \<times> float64 \<Rightarrow> float64 \<times> float64" where
  "avg_loop [] (totalVolume, totalCost) = (totalVolume, totalCost)"
| "avg_loop (dcaOrder # rest) (totalVolume, totalCost) =
     (if Order.Status dcaOrder = OrderStatusFilled then
        (case ParseFloat (Order.ExecutedQty dcaOrder) of
           Inl e \<Rightarrow> avg_loop rest (totalVolume, totalCost)
         | Inr dcaVolume \<Rightarrow>
             (case ParseFloat (Order.Price dcaOrder) of
                Inl e \<Rightarrow> avg_loop rest (totalVolume, totalCost)
              | Inr dcaPrice \<Rightarrow>
                  avg_loop rest (fadd totalVolume dcaVolume, fadd totalCost (fmul dcaVolume dcaPrice))))
      else avg_loop rest (totalVolume, totalCost))"

definition calculateNewAveragePrice :: "Trade \<Rightarrow> error + (float64 \<times> string)" where
  "calculateNewAveragePrice trade =
     (case EntryOrder trade of
        None \<Rightarrow> Inl (Panic ''nil pointer dereference'')
      | Some entry \<Rightarrow>
          (case ParseFloat (Order.Quantity entry) of
             Inl e \<Rightarrow> Inl (Wrap ''invalid entry volume'' e)
           | Inr entryVolume \<Rightarrow>
               (case ParseFloat (Order.Price entry) of
                  Inl e \<Rightarrow> Inl (Wrap ''invalid entry price'' e)
                | Inr entryPrice \<Rightarrow>
                    (case avg_loop (DCAOrders trade)
                            (fadd 0 entryVolume, fadd 0 (fmul entryVolume entryPrice)) of
                       (totalVolume, totalCost) \<Rightarrow>
                         if totalVolume = 0 then Inl (Errorf ''total volume is zero'')
                         else Inr (fdiv totalCost totalVolume, Sprintf8 totalVolume)))))"

definition updateTakeProfitOrder :: "Trade \<Rightarrow> world \<Rightarrow> error option \<times> Trade \<times> world" where
  "updateTakeProfitOrder trade w =
     (let w1 = (case TakeProfitOrder trade of
                  None \<Rightarrow> w
                | Some tp \<Rightarrow> snd (TerminateOrder (Trade.Symbol trade) (Order.BybitID tp) w))
      in case calculateNewAveragePrice trade of
           Inl e \<Rightarrow> (Some (Wrap ''failed to calculate new average price'' e), trade, w1)
         | Inr (newAveragePrice, totalVolume) \<Rightarrow>
             (let tpPrice = fmul newAveragePrice
                              (fadd 1 (fdiv (TakeProfitPercent (Config trade)) 100));
                  tpPriceStr = Sprintf8 tpPrice
              in case ExecuteLimitOrder
                        \<lparr>CreateOrderRequest.Symbol = TradeConfig.Symbol (Config trade),
                         CreateOrderRequest.Side = OrderSideSell,
                         CreateOrderRequest.Type = OrderTypeLimit,
                         CreateOrderRequest.Quantity = totalVolume,
                         CreateOrderRequest.Price = tpPriceStr\<rparr> w1 of
                   (Inl e, w2) \<Rightarrow>
                     (Some (Wrap ''failed to create new take profit order'' e), trade, w2)
                 | (Inr tpOrder, w2) \<Rightarrow>
                     (None,
                      trade\<lparr>TakeProfitOrder := Some tpOrder,
                            AveragePrice := Sprintf8 newAveragePrice\<rparr>, w2)))"

definition handleDCAExecution :: "Trade \<Rightarrow> nat \<Rightarrow> world \<Rightarrow> error option \<times> Trade \<times> world" where
  "handleDCAExecution trade dcaOrderIndex w =
     (if length (DCAOrders trade) \<le> dcaOrderIndex then
        (Some (Panic ''index out of range''), trade, w)
      else
        (let dcaOrder = DCAOrders trade ! dcaOrderIndex
         in case FetchOrderStatus (Order.Symbol dcaOrder) (Order.BybitID dcaOrder) w of
              (Inl e, w1) \<Rightarrow> (Some (Wrap ''failed to get updated DCA order status'' e), trade, w1)
            | (Inr updatedOrder, w1) \<Rightarrow>
                (case updateTakeProfitOrder
                        (trade\<lparr>DCAOrders := (DCAOrders trade)[dcaOrderIndex := updatedOrder]\<rparr>) w1 of
                   (err, trade', w2) \<Rightarrow> (None, trade'\<lparr>Trade.UpdatedAt := clock w2\<rparr>, w2))))"

fun cancel_new_orders :: "Order list \<Rightarrow> world \<Rightarrow> world" where
  "cancel_new_orders [] w = w"
| "cancel_new_orders (dcaOrder # rest) w =
     (if Order.Status dcaOrder = OrderStatusNew
      then cancel_new_orders rest
             (snd (TerminateOrder (Order.Symbol dcaOrder) (Order.BybitID dcaOrder) w))
      else cancel_new_orders rest w)"

definition finalizeTrade ::
  "int \<Rightarrow> string \<Rightarrow> TradeService \<Rightarrow> world \<Rightarrow> error option \<times> TradeService \<times> world" where
  "finalizeTrade tradeID status s w =
     (case trades s tradeID of
        None \<Rightarrow> (Some (Errorf ''trade not found''), s, w)
      | Some trade \<Rightarrow>
          (let trade' = trade\<lparr>Trade.Status := status, Trade.UpdatedAt := clock w\<rparr>
           in (None,
               unindexOrders trade' (s\<lparr>trades := (trades s)(tradeID \<mapsto> trade')\<rparr>),
               cancel_new_orders (DCAOrders trade') w)))"

fun dca_index :: "string \<Rightarrow> Order list \<Rightarrow> nat option" where
  "dca_index orderID [] = None"
| "dca_index orderID (dcaOrder # rest) =
     (if Order.BybitID dcaOrder = orderID then Some 0
      else map_option Suc (dca_index orderID rest))"

definition ProcessOrderExecution ::
  "int \<Rightarrow> string \<Rightarrow> TradeService \<Rightarrow> world \<Rightarrow> error option \<times> TradeService \<times> world" where
  "ProcessOrderExecution tradeID orderID s w =
     (case trades s tradeID of
        None \<Rightarrow> (Some (Errorf ''trade not found''), s, w)
      | Some trade \<Rightarrow>
          if (case TakeProfitOrder trade of
                None \<Rightarrow> False
              | Some tp \<Rightarrow> Order.BybitID tp = orderID)
          then finalizeTrade tradeID TradeStatusCompleted s w
          else
            (case dca_index orderID (DCAOrders trade) of
               Some i \<Rightarrow>
                 (case handleDCAExecution trade i w of
                    (err, trade', w') \<Rightarrow>
                      (err, s\<lparr>trades := (trades s)(tradeID \<mapsto> trade')\<rparr>, w'))
             | None \<Rightarrow> (Some (Errorf ''order not found in trade''), s, w)))"

definition CloseTrade ::
  "int \<Rightarrow> string \<Rightarrow> TradeService \<Rightarrow> world \<Rightarrow> error option \<times> TradeService \<times> world" where
  "CloseTrade tradeID reason s w =
     (case trades s tradeID of
        None \<Rightarrow> (Some (Errorf ''trade not found''), s, w)
      | Some trade \<Rightarrow> finalizeTrade tradeID TradeStatusCancelled s w)"

section \<open>TradeHandler\<close>



section \<open>Signed requests\<close>

text \<open>
  The HTTP requests the client builds. \<open>hmac key msg\<close> stands for the hex encoding of
  HMAC-SHA256 of \<open>msg\<close> under \<open>key\<close> (\<^verbatim>\<open>crypto/hmac\<close>, \<^verbatim>\<open>crypto/sha256\<close>,
  \<^verbatim>\<open>encoding/hex\<close>); it is a parameter, so every statement holds for whatever that
  function is. The time of the request is the argument \<open>timestamp\<close>.
\<close>

record Client =
  apiKey :: string
  secretKey :: string
  testnet :: bool

record http_request =
  http_method :: string
  url :: string
  headers :: "string \<rightharpoonup> string"
  body :: "string option"

definition getBaseURL :: "Client \<Rightarrow> string" where
  "getBaseURL c = (if testnet c then ''https://api-testnet.bybit.com'' else ''https://api.bybit.com'')"

definition createSignature :: "(string \<Rightarrow> string \<Rightarrow> string) \<Rightarrow> Client \<Rightarrow> string \<Rightarrow> string" where
  "createSignature hmac c queryString = hmac (secretKey c) queryString"

text \<open>\<^verbatim>\<open>strconv.FormatInt(i, 10)\<close>.\<close>

definition FormatInt :: "int \<Rightarrow> string" where
  "FormatInt i = (if i < 0 then ''-'' @ digits (- i) else digits i)"

text \<open>
  \<^verbatim>\<open>url.Values\<close> with one value per key, as \<^verbatim>\<open>Set\<close> leaves it, and \<^verbatim>\<open>Encode\<close>:
  the pairs sorted by key, each side escaped by \<^verbatim>\<open>url.QueryEscape\<close>, joined by \<open>&\<close>.
\<close>

definition Values_Set :: "string \<Rightarrow> string \<Rightarrow> (string \<times> string) list \<Rightarrow> (string \<times> string) list" where
  "Values_Set k v vs = (k, v) # filter (\<lambda>kv. fst kv \<noteq> k) vs"

definition hex_digit :: "nat \<Rightarrow> char" where
  "hex_digit n = ''0123456789ABCDEF'' ! (n mod 16)"

definition unreserved :: "char \<Rightarrow> bool" where
  "unreserved c =
     (c \<in> set ''ABCDEFGHIJKLMNOPQRSTUVWXYZabcdefghijklmnopqrstuvwxyz0123456789-_.~'')"

definition QueryEscape :: "string \<Rightarrow> string" where
  "QueryEscape s =
     concat (map (\<lambda>c. if unreserved c then [c]
                       else if c = CHR '' '' then ''+''
                       else [CHR ''%'', hex_digit (of_char c div 16), hex_digit (of_char c mod 16)]) s)"

fun join_amp :: "string list \<Rightarrow> string" where
  "join_amp [] = []"
| "join_amp [x] = x"
| "join_amp (x # y # ys) = x @ ''&'' @ join_amp (y # ys)"

definition Values_Encode :: "(string \<times> string) list \<Rightarrow> string" where
  "Values_Encode vs =
     join_amp (map (\<lambda>kv. QueryEscape (fst kv) @ ''='' @ QueryEscape (snd kv)) (sort_key fst vs))"

text \<open>The request FetchOrderInfo sends (lines 114 to 133 of the client).\<close>

definition FetchOrderInfo_request ::
  "(string \<Rightarrow> string \<Rightarrow> string) \<Rightarrow> Client \<Rightarrow> int \<Rightarrow> string \<Rightarrow> string \<Rightarrow> http_request" where
  "FetchOrderInfo_request hmac c timestamp symbol orderID =
     (let params = Values_Set ''timestamp'' (FormatInt timestamp)
                     (Values_Set ''orderId'' orderID (Values_Set ''symbol'' symbol []));
          endpoint = ''/v5/order/realtime?'' @ Values_Encode params;
          signature = createSignature hmac c (Values_Encode params);
          endpoint' = endpoint @ ''&signature='' @ signature
      in \<lparr>http_method = ''GET'',
          url = getBaseURL c @ endpoint',
          headers = [''X-BAPI-API-KEY'' \<mapsto> apiKey c,
                     ''X-BAPI-SIGN'' \<mapsto> signature,
                     ''X-BAPI-TIMESTAMP'' \<mapsto> FormatInt timestamp],
          body = None\<rparr>)"

text \<open>
  makeAuthenticatedRequest takes its payload as an \<^verbatim>\<open>interface{}\<close> and encodes it
  with the library: \<^verbatim>\<open>json.Marshal\<close> for the body, structToURLValues for a query.
  The payload enters the model through these two encodings, each of which may fail.
\<close>

record payload =
  json_Marshal :: "error + string"
  structToURLValues :: "error + (string \<times> string) list"

definition makeAuthenticatedRequest ::
  "(string \<Rightarrow> string \<Rightarrow> string) \<Rightarrow> Client \<Rightarrow> int \<Rightarrow> string \<Rightarrow> string \<Rightarrow> payload
     \<Rightarrow> error + http_request" where
  "makeAuthenticatedRequest hmac c timestamp meth endpoint pl =
     (case (if meth = ''GET'' \<or> meth = ''DELETE'' then
              (case structToURLValues pl of
                 Inl e \<Rightarrow> Inl (Wrap ''failed to convert payload to query params'' e)
               | Inr params \<Rightarrow> Inr (None, Values_Encode params))
            else
              (case json_Marshal pl of
                 Inl e \<Rightarrow> Inl (Wrap ''failed to marshal payload'' e)
               | Inr jsonData \<Rightarrow> Inr (Some jsonData, jsonData))) of
        Inl e \<Rightarrow> Inl e
      | Inr (bdy, queryString) \<Rightarrow>
          (let signature = createSignature hmac c (FormatInt timestamp @ apiKey c @ queryString);
               requestURL = (if meth = ''GET'' \<or> meth = ''DELETE''
                             then getBaseURL c @ endpoint @ ''?'' @ queryString
                             else getBaseURL c @ endpoint);
               hs = [''X-BAPI-API-KEY'' \<mapsto> apiKey c,
                     ''X-BAPI-SIGN'' \<mapsto> signature,
                     ''X-BAPI-TIMESTAMP'' \<mapsto> FormatInt timestamp,
                     ''X-BAPI-RECV-WINDOW'' \<mapsto> ''5000'']
           in Inr \<lparr>http_method = meth,
                   url = requestURL,
                   headers = (if meth = ''POST'' then hs(''Content-Type'' \<mapsto> ''application/json'')
                              else hs),
                   body = bdy\<rparr>))"

section \<open>What the specification says, in the terms of the model\<close>

subsection \<open>The safety-order grid\<close>







subsection \<open>The size of the initial take profit\<close>





subsection \<open>The weighted average\<close>







subsection \<open>The value of a printed number\<close>

text \<open>The number that the text \<open>Sprintf8 x\<close> denotes.\<close>

definition printed :: "float64 \<Rightarrow> rat" where
  "printed x = (if x < 0 then - 1 else 1) * of_int (round8 x) / 10 ^ 8"

subsection \<open>One iteration of the grid loop\<close>





section \<open>Scenarios\<close>

text \<open>
  The concrete runs used below: the configuration of the happy-path scenario (entry of
  100 USDT, three safety orders of 50 USDT one percent apart, take profit at two percent)
  against an exchange that fills the entry at 100 and accepts every order.
\<close>

definition scenario_config :: TradeConfig where
  "scenario_config =
     \<lparr>TradeConfig.Symbol = ''SOLUSDT'', EntryVolume = ''100'', DCAStepPercent = 1,
      DCAVolume = ''50'', DCACount = 3, TakeProfitPercent = 2, Martingale = 1,
      DynamicStep = False\<rparr>"

definition order_reply :: "string \<Rightarrow> string \<Rightarrow> string \<Rightarrow> string \<Rightarrow> string \<Rightarrow> exch_reply" where
  "order_reply oid price qty st executed =
     Success \<lparr>ExchangeOrderResponse.Symbol = ''SOLUSDT'', OrderID = oid, OrderLinkID = [],
              Price = price, Qty = qty, ExecutedQty = executed, Status = st,
              TimeInForce = ''GTC'', OrderType = ''LIMIT'', Side = ''BUY'', CreatedTime = []\<rparr>"

definition init_replies :: "exch_reply list" where
  "init_replies =
     [order_reply ''E'' ''100.00000000'' ''100'' ''FILLED'' ''100'',
      order_reply ''TP1'' ''102.00000000'' ''2.45098039'' ''NEW'' ''0'',
      order_reply ''D0'' ''99.00000000'' ''0.50505051'' ''NEW'' ''0'',
      order_reply ''D1'' ''98.01000000'' ''0.51015203'' ''NEW'' ''0'',
      order_reply ''D2'' ''97.02990000'' ''0.51530508'' ''NEW'' ''0'']"

definition world_of :: "exch_reply list \<Rightarrow> world" where
  "world_of rs = \<lparr>replies = rs, calls = [], clock = 1000, next_uuid = 0\<rparr>"

text \<open>The state after the initialization; the trade gets the id 1.\<close>

definition after_init :: "exch_reply list \<Rightarrow> TradeService \<times> world" where
  "after_init later =
     (case InitializeTrade scenario_config NewTradeManager (world_of (init_replies @ later)) of
        (r, s, w) \<Rightarrow> (s, w))"

text \<open>
  The first safety order fills with 50 executed at 99: the re-query reports it, the
  cancellation of the old take profit is acknowledged, and then the exchange either
  accepts the new take profit as TP2 or rejects it.
\<close>

definition fill_replies :: "exch_reply \<Rightarrow> exch_reply list" where
  "fill_replies placement =
     [order_reply ''D0'' ''99.00000000'' ''0.50505051'' ''FILLED'' ''50'',
      order_reply ''TP1'' ''102.00000000'' ''2.45098039'' ''CANCELED'' ''0'',
      placement]"

definition accepted_TP2 :: exch_reply where
  "accepted_TP2 = order_reply ''TP2'' ''101.66000000'' ''1.47550659'' ''NEW'' ''0''"


definition after_fill :: "exch_reply \<Rightarrow> error option \<times> TradeService \<times> world" where
  "after_fill placement =
     (case after_init (fill_replies placement) of
        (s, w) \<Rightarrow> ProcessOrderExecution 1 ''D0'' s w)"

text \<open>The state the initialization leaves, written out.\<close>

definition mk_order :: "int \<Rightarrow> string \<Rightarrow> string \<Rightarrow> string \<Rightarrow> string \<Rightarrow> string \<Rightarrow> Order" where
  "mk_order uid oid price qty st executed =
     \<lparr>Order.ID = uid, BybitID = oid, Symbol = ''SOLUSDT'', Side = ''BUY'', Type = ''LIMIT'',
      Quantity = qty, Price = price, Status = st, ExecutedQty = executed,
      CreatedAt = 1000, UpdatedAt = 1000\<rparr>"

definition scenario_trade :: Trade where
  "scenario_trade =
     \<lparr>Trade.ID = 1, Symbol = ''SOLUSDT'', Config = scenario_config,
      EntryOrder = Some (mk_order 0 ''E'' ''100.00000000'' ''100'' ''FILLED'' ''100''),
      DCAOrders =
        [mk_order 3 ''D0'' ''99.00000000'' ''0.50505051'' ''NEW'' ''0'',
         mk_order 4 ''D1'' ''98.01000000'' ''0.51015203'' ''NEW'' ''0'',
         mk_order 5 ''D2'' ''97.02990000'' ''0.51530508'' ''NEW'' ''0''],
      TakeProfitOrder = Some (mk_order 2 ''TP1'' ''102.00000000'' ''2.45098039'' ''NEW'' ''0''),
      Status = ''ACTIVE'', TotalInvested = ''100'', AveragePrice = ''100.00000000'',
      CurrentPrice = ''100.00000000'', CreatedAt = 1000, UpdatedAt = 1000\<rparr>"

definition scenario_state :: TradeService where
  "scenario_state =
     \<lparr>trades = [1 \<mapsto> scenario_trade],
      orderIndex = [''E'' \<mapsto> 1, ''TP1'' \<mapsto> 1, ''D0'' \<mapsto> 1, ''D1'' \<mapsto> 1, ''D2'' \<mapsto> 1]\<rparr>"

definition limit_call :: "string \<Rightarrow> string \<Rightarrow> string \<Rightarrow> exch_call" where
  "limit_call side qty price =
     CallExecuteOrder
       \<lparr>ExchangeOrderRequest.Symbol = ''SOLUSDT'', Side = side, OrderType = ''LIMIT'',
        Qty = qty, Price = price, TimeInForce = ''GTC'', Timestamp = 1000\<rparr>"

definition scenario_calls :: "exch_call list" where
  "scenario_calls =
     [CallExecuteOrder
        \<lparr>ExchangeOrderRequest.Symbol = ''SOLUSDT'', Side = ''BUY'', OrderType = ''MARKET'',
         Qty = ''100'', Price = [], TimeInForce = [], Timestamp = 1000\<rparr>,
      limit_call ''SELL'' ''2.45098039'' ''102.00000000'',
      limit_call ''BUY'' ''0.50505051'' ''99.00000000'',
      limit_call ''BUY'' ''0.51015203'' ''98.01000000'',
      limit_call ''BUY'' ''0.51530508'' ''97.02990000'']"

definition scenario_world :: "exch_reply list \<Rightarrow> world" where
  "scenario_world later = \<lparr>replies = later, calls = scenario_calls, clock = 1000, next_uuid = 6\<rparr>"

text \<open>The first safety order as the re-query reports it, and the calls a fill makes.\<close>

definition filled_D0 :: Order where
  "filled_D0 = mk_order 6 ''D0'' ''99.00000000'' ''0.50505051'' ''FILLED'' ''50''"

definition fill_calls :: "exch_call list" where
  "fill_calls =
     [CallFetchOrderInfo ''SOLUSDT'' ''D0'',
      CallTerminateOrder
        \<lparr>ExchangeCancelRequest.Symbol = ''SOLUSDT'', OrderID = ''TP1'', Timestamp = 1000\<rparr>,
      limit_call ''SELL'' ''1.47550659'' ''101.66000000'']"

text \<open>
  The take profit fills: the trade completes and its three open safety orders are
  cancelled (the exchange acknowledges each). Afterwards the trade is closed by hand, or
  the fill of the first safety order arrives late.
\<close>

definition cancel_acks :: "exch_reply list" where
  "cancel_acks =
     [order_reply ''D0'' ''99.00000000'' ''0.50505051'' ''CANCELED'' ''0'',
      order_reply ''D1'' ''98.01000000'' ''0.51015203'' ''CANCELED'' ''0'',
      order_reply ''D2'' ''97.02990000'' ''0.51530508'' ''CANCELED'' ''0'']"

definition after_tp_fill :: "exch_reply list \<Rightarrow> error option \<times> TradeService \<times> world" where
  "after_tp_fill later =
     (case after_init later of (s, w) \<Rightarrow> ProcessOrderExecution 1 ''TP1'' s w)"

definition after_close :: "error option \<times> TradeService \<times> world" where
  "after_close =
     (case after_tp_fill cancel_acks of (e, s, w) \<Rightarrow> CloseTrade 1 ''manual'' s w)"

definition after_late_fill :: "error option \<times> TradeService \<times> world" where
  "after_late_fill =
     (case after_tp_fill (cancel_acks @ fill_replies accepted_TP2) of
        (e, s, w) \<Rightarrow> ProcessOrderExecution 1 ''D0'' s w)"








section \<open>Evaluating the model on concrete inputs\<close>

text \<open>
  Concrete runs are computed by the simplifier from the definitions. The two rules for
  the floor and ceiling of a fraction of numerals complete the arithmetic; the
  congruence rules \<open>let_weak_cong\<close> and \<open>prod.case_cong_weak\<close> make it evaluate a
  bound value before the body that uses it.
\<close>

lemma floor_rat_numeral: "\<lfloor>(numeral a :: rat) / numeral b\<rfloor> = numeral a div numeral b"
  using floor_divide_of_int_eq [of "numeral a" "numeral b", where ?'a = rat] by simp

lemma ceiling_rat_numeral: "\<lceil>(numeral a :: rat) / numeral b\<rceil> = - (- numeral a div numeral b)"
  using floor_divide_of_int_eq [of "- numeral a" "numeral b", where ?'a = rat]
  by (simp add: ceiling_def)

lemmas float_ev = fl64_def ilog2_def pow2_def pow10_def round_half_even_def Let_def compute_bitlen
  floor_rat_numeral ceiling_rat_numeral fadd_def fsub_def fmul_def fdiv_def float64_of_int_def

lemmas text_ev = digits.simps digit_char_def digit_val_def digits_val_def is_digit_def
  parse_exponent_def parse_decimal_def ParseFloat_def ParseFloat_value_def pad8_def round8_def
  Sprintf8_def

lemmas svc_ev = exchange_def uuid_New_def Client_ExecuteOrder_def Client_TerminateOrder_def
  Client_FetchOrderInfo_def buildOrderFromResponse_def calculateQuantityFromUSDT_def
  ExecuteMarketOrder_def ExecuteLimitOrder_def TerminateOrder_def FetchOrderStatus_def
  NewTradeManager_def tp_volume_loop.simps setupTakeProfitOrder_def dca_loop.simps
  setupDCAOrders_def indexOrders_def unindexOrders_def InitializeTrade_def
  calculateNewAveragePrice_def updateTakeProfitOrder_def handleDCAExecution_def
  finalizeTrade_def ProcessOrderExecution_def CloseTrade_def

lemmas scen_ev = scenario_config_def order_reply_def init_replies_def world_of_def
  fill_replies_def accepted_TP2_def

lemmas lit_ev = mk_order_def scenario_trade_def scenario_state_def limit_call_def
  scenario_calls_def scenario_world_def filled_D0_def fill_calls_def

subsection \<open>The scenario runs\<close>

lemma after_init_eq: "after_init later = (scenario_state, scenario_world later)"
  unfolding after_init_def
  by (simp add: float_ev text_ev svc_ev scen_ev lit_ev cong: let_weak_cong prod.case_cong_weak)

lemma after_fill_accepted_eq:
  "after_fill accepted_TP2 =
     (None,
      scenario_state\<lparr>trades := [1 \<mapsto> scenario_trade
         \<lparr>DCAOrders := (DCAOrders scenario_trade)[0 := filled_D0],
          TakeProfitOrder := Some (mk_order 7 ''TP2'' ''101.66000000'' ''1.47550659'' ''NEW'' ''0''),
          AveragePrice := ''99.66666667''\<rparr>]\<rparr>,
      \<lparr>replies = [], calls = scenario_calls @ fill_calls, clock = 1000, next_uuid = 8\<rparr>)"
  unfolding after_fill_def after_init_eq
  by (simp add: float_ev text_ev svc_ev scen_ev lit_ev cong: let_weak_cong prod.case_cong_weak)


section \<open>The registry and the reverse index\<close>

lemma trades_fold_orderIndex:
  "trades (fold (\<lambda>d s'. s'\<lparr>orderIndex := f d s'\<rparr>) ds s) = trades s"
  by (induction ds arbitrary: s) simp_all

lemma trades_unindexOrders: "trades (unindexOrders t s) = trades s"
  by (simp add: unindexOrders_def Let_def trades_fold_orderIndex split: option.splits)


lemma finalizeTrade_registered:
  assumes "trades s tradeID = Some trade"
  shows "finalizeTrade tradeID st s w =
           (None,
            unindexOrders (trade\<lparr>Trade.Status := st, Trade.UpdatedAt := clock w\<rparr>)
              (s\<lparr>trades := (trades s)(tradeID \<mapsto> trade\<lparr>Trade.Status := st, Trade.UpdatedAt := clock w\<rparr>)\<rparr>),
            cancel_new_orders (DCAOrders trade) w)"
  using assms by (simp add: finalizeTrade_def Let_def)

lemma dca_fill_keeps_orderIndex:
  assumes "trades s tradeID = Some trade"
    and "\<not> (case TakeProfitOrder trade of None \<Rightarrow> False | Some tp \<Rightarrow> Order.BybitID tp = orderID)"
  shows "orderIndex (fst (snd (ProcessOrderExecution tradeID orderID s w))) = orderIndex s"
  using assms
  by (simp add: ProcessOrderExecution_def split: prod.splits option.splits)

text \<open>
  C1. Every order a registered trade holds is in the reverse index under its exchange
  id, also after a fill of a safety order has replaced the take profit: then the index
  has the new take profit's id and no longer the old one's.

  The code does not do this: the fill handling never writes the index. In the scenario,
  after the first safety order fills and the exchange accepts the replacement TP2, the
  trade holds TP2, the index still maps TP1 to the trade and has no entry for TP2, so
  the lookup of TP2 (the webhook's way to the trade) fails.
\<close>

theorem tp_replacement_leaves_index_stale:
  "map_option (map_option Order.BybitID \<circ> TakeProfitOrder)
     (trades (fst (snd (after_fill accepted_TP2))) 1) = Some (Some ''TP2'')
   \<and> orderIndex (fst (snd (after_fill accepted_TP2))) ''TP2'' = None
   \<and> orderIndex (fst (snd (after_fill accepted_TP2))) ''TP1'' = Some 1
   \<and> FindTradeByOrderID ''TP2'' (fst (snd (after_fill accepted_TP2)))
       = Inl (Errorf ''trade not found for order ID'')"
  by (simp add: after_fill_accepted_eq lit_ev FindTradeByOrderID_def)

text \<open>
  C2, as amended. CloseTrade and the processing of a take-profit fill do not look at the
  status of the trade. On every registered trade, terminal or not, they overwrite the
  status (CANCELLED, respectively COMPLETED) and \<open>updated_at\<close>, and leave every other
  field of the trade as it was.
\<close>

theorem finalize_overwrites_status_only:
  assumes "trades s tradeID = Some trade"
  shows "(\<exists>s' w'. CloseTrade tradeID reason s w = (None, s', w')
            \<and> trades s' tradeID
                = Some (trade\<lparr>Trade.Status := TradeStatusCancelled, Trade.UpdatedAt := clock w\<rparr>))
       \<and> ((case TakeProfitOrder trade of None \<Rightarrow> False | Some tp \<Rightarrow> Order.BybitID tp = orderID)
            \<longrightarrow> (\<exists>s' w'. ProcessOrderExecution tradeID orderID s w = (None, s', w')
                  \<and> trades s' tradeID
                      = Some (trade\<lparr>Trade.Status := TradeStatusCompleted, Trade.UpdatedAt := clock w\<rparr>)))"
  using assms
  by (simp add: CloseTrade_def ProcessOrderExecution_def finalizeTrade_registered trades_unindexOrders)

theorem finalize_overwrites_status_only_witness:
  "trades (scenario_state\<lparr>trades := [1 \<mapsto> scenario_trade\<lparr>Trade.Status := TradeStatusCompleted\<rparr>]\<rparr>) 1
     = Some (scenario_trade\<lparr>Trade.Status := TradeStatusCompleted\<rparr>)
   \<and> (\<exists>s' w'. CloseTrade 1 ''manual''
                 (scenario_state\<lparr>trades := [1 \<mapsto> scenario_trade\<lparr>Trade.Status := TradeStatusCompleted\<rparr>]\<rparr>)
                 (scenario_world []) = (None, s', w')
          \<and> trades s' 1 = Some (scenario_trade\<lparr>Trade.Status := TradeStatusCancelled, Trade.UpdatedAt := 1000\<rparr>))
   \<and> (\<exists>s' w'. ProcessOrderExecution 1 ''TP1''
                 (scenario_state\<lparr>trades := [1 \<mapsto> scenario_trade\<lparr>Trade.Status := TradeStatusCompleted\<rparr>]\<rparr>)
                 (scenario_world []) = (None, s', w')
          \<and> trades s' 1 = Some (scenario_trade\<lparr>Trade.Status := TradeStatusCompleted, Trade.UpdatedAt := 1000\<rparr>))"
  using finalize_overwrites_status_only
    [of "scenario_state\<lparr>trades := [1 \<mapsto> scenario_trade\<lparr>Trade.Status := TradeStatusCompleted\<rparr>]\<rparr>"
        1 "scenario_trade\<lparr>Trade.Status := TradeStatusCompleted\<rparr>" "''manual''" "scenario_world []"
        "''TP1''"]
  by (simp add: lit_ev)


text \<open>
  C2 as stated fails. In the scenario the take profit fills and the trade is COMPLETED.
  A later CloseTrade turns the status into CANCELLED. And a late fill of the first
  safety order is handled as on an active trade: the completed trade gets a new take
  profit order and its average price changes from 100 to 99.66666667.
\<close>

theorem terminal_trade_is_mutated:
  "map_option Trade.Status (trades (fst (snd (after_tp_fill cancel_acks))) 1) = Some TradeStatusCompleted
   \<and> map_option Trade.Status (trades (fst (snd after_close)) 1) = Some TradeStatusCancelled
   \<and> map_option AveragePrice (trades (fst (snd (after_tp_fill (cancel_acks @ fill_replies accepted_TP2)))) 1)
       = Some ''100.00000000''
   \<and> fst after_late_fill = None
   \<and> map_option Trade.Status (trades (fst (snd after_late_fill)) 1) = Some TradeStatusCompleted
   \<and> map_option AveragePrice (trades (fst (snd after_late_fill)) 1) = Some ''99.66666667''
   \<and> map_option (map_option Order.BybitID \<circ> TakeProfitOrder) (trades (fst (snd after_late_fill)) 1)
       = Some (Some ''TP2'')"
  unfolding after_close_def after_late_fill_def after_tp_fill_def after_init_eq
  by (simp add: float_ev text_ev svc_ev scen_ev lit_ev cancel_acks_def
      cong: let_weak_cong prod.case_cong_weak)




section \<open>Validation of a new trade\<close>





section \<open>The weighted average\<close>









section \<open>The orders of the initialization\<close>





















subsection \<open>Evaluating the closed forms\<close>




subsection \<open>The prices of the safety orders\<close>




subsection \<open>The initial take profit\<close>




end
